theory Spec2Isabelle
  imports Main
begin

section \<open>JavaScript values and the utility-class helper\<close>

text \<open>
  The arguments that the components hand to \<^verbatim>\<open>tw.style\<close> are JavaScript values: a
  string of utility classes, \<^verbatim>\<open>false\<close> (the left operand of a failed \<^verbatim>\<open>&&\<close>) or
  \<^verbatim>\<open>undefined\<close> (an optional field or prop that is absent).
\<close>

datatype jsval = JBool bool | JUndefined | JStr string

fun truthy :: "jsval \<Rightarrow> bool" where
  "truthy (JBool b) = b"
| "truthy JUndefined = False"
| "truthy (JStr s) = (s \<noteq> [])"

text \<open>\<^verbatim>\<open>a && b\<close>: the left operand when it is falsy, the right operand otherwise.\<close>

definition js_and :: "jsval \<Rightarrow> jsval \<Rightarrow> jsval" where
  "js_and a b = (if truthy a then b else a)"

text \<open>A parameter default \<^verbatim>\<open>x = d\<close> of a destructuring pattern applies when the prop is absent.\<close>

fun default_to :: "'b \<Rightarrow> 'b option \<Rightarrow> 'b" where
  "default_to d None = d"
| "default_to d (Some v) = v"

text \<open>\<^verbatim>\<open>s.includes(sub)\<close>: \<open>sub\<close> occurs in \<open>s\<close> as a contiguous substring.\<close>

fun str_includes :: "string \<Rightarrow> string \<Rightarrow> bool" where
  "str_includes [] sub = (sub = [])"
| "str_includes (c # cs) sub = (take (length sub) (c # cs) = sub \<or> str_includes cs sub)"

text \<open>
  \<^verbatim>\<open>tw.style\<close> belongs to the external styling library. Its result is represented here by
  the class composition it is given: the utility-class names of its string arguments, in
  argument order, each string split at white space; arguments that are not strings
  (\<^verbatim>\<open>false\<close>, \<^verbatim>\<open>undefined\<close>) contribute nothing. A class that is given twice is listed
  twice. How the library turns the class names into a native style object is outside the
  repository and is not modelled.
\<close>

definition is_space :: "char \<Rightarrow> bool" where
  "is_space c = (c = CHR '' '' \<or> c = CHR 0x09 \<or> c = CHR 0x0A \<or> c = CHR 0x0D)"

fun split_go :: "string \<Rightarrow> string \<Rightarrow> string list" where
  "split_go w [] = (if w = [] then [] else [rev w])"
| "split_go w (c # cs) =
     (if is_space c then (if w = [] then split_go [] cs else rev w # split_go [] cs)
      else split_go (c # w) cs)"

definition split_ws :: "string \<Rightarrow> string list" where
  "split_ws s = split_go [] s"

fun class_names :: "jsval \<Rightarrow> string list" where
  "class_names (JStr s) = split_ws s"
| "class_names (JBool b) = []"
| "class_names JUndefined = []"

definition tw_style :: "jsval list \<Rightarrow> string list" where
  "tw_style inputs = concat (map class_names inputs)"

section \<open>Button: types and tables\<close>

datatype ButtonSize = Small | Medium | Large | XLarge

fun size_str :: "ButtonSize \<Rightarrow> string" where
  "size_str Small = ''small''"
| "size_str Medium = ''medium''"
| "size_str Large = ''large''"
| "size_str XLarge = ''xlarge''"

datatype ButtonTheme =
  Primary | Action | Light | PrimaryOutlined | ActionOutlined | LightOutlined

fun theme_str :: "ButtonTheme \<Rightarrow> string" where
  "theme_str Primary = ''primary''"
| "theme_str Action = ''action''"
| "theme_str Light = ''light''"
| "theme_str PrimaryOutlined = ''primary-outlined''"
| "theme_str ActionOutlined = ''action-outlined''"
| "theme_str LightOutlined = ''light-outlined''"

text \<open>The members of the \<^verbatim>\<open>COLORS\<close> object.\<close>

definition COLORS_primary :: string where "COLORS_primary = ''#F02C56''"
definition COLORS_action :: string where "COLORS_action = ''#0095f6''"
definition COLORS_light :: string where "COLORS_light = ''#f1f1f1''"
definition COLORS_white :: string where "COLORS_white = ''#ffffff''"
definition COLORS_black :: string where "COLORS_black = ''#000000''"
definition COLORS_gray :: string where "COLORS_gray = ''#8e8e8e''"
definition COLORS_transparent :: string where "COLORS_transparent = ''transparent''"

text \<open>
  An object literal is an association list from property names to values. Reading a
  property that the object does not have gives \<^verbatim>\<open>undefined\<close>.
\<close>

type_synonym obj = "(string \<times> string) list"

definition field :: "obj \<Rightarrow> string \<Rightarrow> jsval" where
  "field ob k = (case map_of ob k of None \<Rightarrow> JUndefined | Some s \<Rightarrow> JStr s)"

definition sizeConfig :: "(string \<times> obj) list" where
  "sizeConfig =
    [(''small'',
        [(''paddingX'', ''px-3''), (''paddingY'', ''py-2''),
         (''textSize'', ''text-sm''), (''rounded'', ''rounded-md'')]),
     (''medium'',
        [(''paddingX'', ''px-4''), (''paddingY'', ''py-3''),
         (''textSize'', ''text-base''), (''rounded'', ''rounded-lg'')]),
     (''large'',
        [(''paddingX'', ''px-6''), (''paddingY'', ''py-4''),
         (''textSize'', ''text-lg''), (''rounded'', ''rounded-lg'')]),
     (''xlarge'',
        [(''paddingX'', ''px-8''), (''paddingY'', ''py-5''),
         (''textSize'', ''text-xl''), (''rounded'', ''rounded-xl'')])]"

definition themeConfig :: "(string \<times> obj) list" where
  "themeConfig =
    [(''primary'',
        [(''bg'', ''bg-['' @ COLORS_primary @ '']''),
         (''border'', ''border-['' @ COLORS_primary @ '']''),
         (''text'', ''text-white''),
         (''pressedBg'', ''bg-[#d02647]''),
         (''disabledBg'', ''bg-[#f59db3]'')]),
     (''action'',
        [(''bg'', ''bg-['' @ COLORS_action @ '']''),
         (''border'', ''border-['' @ COLORS_action @ '']''),
         (''text'', ''text-white''),
         (''pressedBg'', ''bg-[#0077cc]''),
         (''disabledBg'', ''bg-[#7fc7fa]'')]),
     (''light'',
        [(''bg'', ''bg-['' @ COLORS_light @ '']''),
         (''border'', ''border-['' @ COLORS_light @ '']''),
         (''text'', ''text-black''),
         (''pressedBg'', ''bg-[#e0e0e0]''),
         (''disabledBg'', ''bg-[#f8f8f8]'')]),
     (''primary-outlined'',
        [(''bg'', ''bg-transparent''),
         (''border'', ''border-['' @ COLORS_primary @ '']''),
         (''text'', ''text-['' @ COLORS_primary @ '']''),
         (''pressedBg'', ''bg-[#fef0f3]''),
         (''disabledBg'', ''bg-transparent''),
         (''disabledText'', ''text-[#f59db3]'')]),
     (''action-outlined'',
        [(''bg'', ''bg-transparent''),
         (''border'', ''border-['' @ COLORS_action @ '']''),
         (''text'', ''text-['' @ COLORS_action @ '']''),
         (''pressedBg'', ''bg-[#e6f5ff]''),
         (''disabledBg'', ''bg-transparent''),
         (''disabledText'', ''text-[#7fc7fa]'')]),
     (''light-outlined'',
        [(''bg'', ''bg-transparent''),
         (''border'', ''border-['' @ COLORS_gray @ '']''),
         (''text'', ''text-gray-800''),
         (''pressedBg'', ''bg-[#f8f8f8]''),
         (''disabledBg'', ''bg-transparent''),
         (''disabledText'', ''text-gray-400'')])]"

section \<open>Button: props, rendered elements and the component\<close>

text \<open>
  The props of \<^verbatim>\<open>Button\<close>. An optional prop that the caller omits is \<open>None\<close>. The
  handler, the \<^verbatim>\<open>style\<close> object and the values of the remaining pressable props are
  opaque values of type \<open>'a\<close>; \<open>rest\<close> holds the props that the destructuring pattern
  does not name.
\<close>

record 'a ButtonProps =
  title :: string
  onPress :: "'a option"
  theme :: "ButtonTheme option"
  size_prop :: "ButtonSize option"
  disabled :: "bool option"
  loading :: "bool option"
  full :: "bool option"
  style_prop :: "'a option"
  rest :: "(string \<times> 'a) list"

text \<open>
  Reading a property of \<^verbatim>\<open>undefined\<close> throws a \<^verbatim>\<open>TypeError\<close>; the error carries the
  name of the property that was read.
\<close>

datatype error = TypeError string

datatype 'c element =
  ActivityIndicator string string
| Text "string list" 'c

text \<open>
  The \<^verbatim>\<open>Pressable\<close> element that \<^verbatim>\<open>Button\<close> returns. Its \<^verbatim>\<open>style\<close> prop is a callback
  from the press state to the pair of the utility-class style and the caller's
  \<^verbatim>\<open>style\<close> object; the callback runs when the toolkit calls it, so a failure in it is
  a result of the callback and not of the render. The remaining props are spread onto
  the element after \<^verbatim>\<open>onPress\<close>, \<^verbatim>\<open>disabled\<close> and \<^verbatim>\<open>style\<close>; they hold none of these
  three, which the destructuring pattern names, and the child written between the tags
  is the element's child whatever the spread props hold.
\<close>

record 'a Pressable =
  pr_onPress :: "'a option"
  pr_disabled :: bool
  pr_style :: "bool \<Rightarrow> error + (string list \<times> 'a option)"
  pr_rest :: "(string \<times> 'a) list"
  pr_children :: "string element"

definition theme_of :: "'a ButtonProps \<Rightarrow> ButtonTheme" where
  "theme_of p = default_to PrimaryOutlined (theme p)"

definition size_of :: "'a ButtonProps \<Rightarrow> ButtonSize" where
  "size_of p = default_to Medium (size_prop p)"

definition disabled_of :: "'a ButtonProps \<Rightarrow> bool" where
  "disabled_of p = default_to False (disabled p)"

definition loading_of :: "'a ButtonProps \<Rightarrow> bool" where
  "loading_of p = default_to False (loading p)"

definition full_of :: "'a ButtonProps \<Rightarrow> bool" where
  "full_of p = default_to False (full p)"

definition isDisabled :: "'a ButtonProps \<Rightarrow> bool" where
  "isDisabled p = (disabled_of p \<or> loading_of p)"

definition themeStyles :: "'a ButtonProps \<Rightarrow> obj option" where
  "themeStyles p = map_of themeConfig (theme_str (theme_of p))"

definition sizeStyles :: "'a ButtonProps \<Rightarrow> obj option" where
  "sizeStyles p = map_of sizeConfig (size_str (size_of p))"

definition getSpinnerColor :: "ButtonTheme \<Rightarrow> string" where
  "getSpinnerColor th =
     (if str_includes (theme_str th) ''outlined'' then
        (if theme_str th = ''primary-outlined'' then COLORS_primary
         else if theme_str th = ''action-outlined'' then COLORS_action
         else COLORS_gray)
      else (if theme_str th = ''light'' then COLORS_black else COLORS_white))"

text \<open>The style callback of the \<^verbatim>\<open>Pressable\<close>, applied to the press state.\<close>

definition pressable_style :: "'a ButtonProps \<Rightarrow> bool \<Rightarrow> error + (string list \<times> 'a option)" where
  "pressable_style p pressed =
     (case sizeStyles p of
        None \<Rightarrow> Inl (TypeError ''paddingX'')
      | Some ss \<Rightarrow>
          (case themeStyles p of
             None \<Rightarrow> Inl (TypeError ''bg'')
           | Some ts \<Rightarrow>
               Inr (tw_style
                      [JStr ''flex-row items-center justify-center border-[1px]'',
                       field ss ''paddingX'',
                       field ss ''paddingY'',
                       field ss ''rounded'',
                       field ts ''bg'',
                       field ts ''border'',
                       js_and (js_and (JBool pressed) (JBool (\<not> isDisabled p)))
                         (field ts ''pressedBg''),
                       js_and (JBool (isDisabled p)) (field ts ''disabledBg''),
                       js_and (JBool (isDisabled p)) (JStr ''opacity-60''),
                       js_and (JBool (full_of p)) (JStr ''flex-1'')],
                    style_prop p)))"

text \<open>The child of the \<^verbatim>\<open>Pressable\<close>: the spinner while loading, the label otherwise.\<close>

definition button_children :: "'a ButtonProps \<Rightarrow> error + string element" where
  "button_children p =
     (if loading_of p then Inr (ActivityIndicator ''small'' (getSpinnerColor (theme_of p)))
      else
        (case sizeStyles p of
           None \<Rightarrow> Inl (TypeError ''textSize'')
         | Some ss \<Rightarrow>
             (case themeStyles p of
                None \<Rightarrow> Inl (TypeError ''text'')
              | Some ts \<Rightarrow>
                  Inr (Text
                         (tw_style
                            [JStr ''font-semibold tracking-wide'',
                             field ss ''textSize'',
                             field ts ''text'',
                             js_and (JBool (isDisabled p)) (field ts ''disabledText'')])
                         (title p)))))"

definition Button :: "'a ButtonProps \<Rightarrow> error + 'a Pressable" where
  "Button p =
     (case button_children p of
        Inl e \<Rightarrow> Inl e
      | Inr c \<Rightarrow>
          Inr \<lparr>pr_onPress = onPress p, pr_disabled = isDisabled p,
               pr_style = pressable_style p, pr_rest = rest p, pr_children = c\<rparr>)"

section \<open>AppText\<close>

datatype TextSize = SizeSmall | SizeMedium | SizeLarge | SizeHeading

fun text_size_str :: "TextSize \<Rightarrow> string" where
  "text_size_str SizeSmall = ''small''"
| "text_size_str SizeMedium = ''medium''"
| "text_size_str SizeLarge = ''large''"
| "text_size_str SizeHeading = ''heading''"

datatype TextColor = ColorPrimary | ColorSecondary | ColorTertiary

fun text_color_str :: "TextColor \<Rightarrow> string" where
  "text_color_str ColorPrimary = ''primary''"
| "text_color_str ColorSecondary = ''secondary''"
| "text_color_str ColorTertiary = ''tertiary''"

record 'c AppTextProps =
  children :: 'c
  text_size :: "TextSize option"
  bold :: "bool option"
  color :: "TextColor option"
  center :: "bool option"
  className :: "string option"

text \<open>The arguments of \<^verbatim>\<open>tw.style\<close> that come from the size, bold, color and center props.\<close>

definition AppText_inputs :: "'c AppTextProps \<Rightarrow> jsval list" where
  "AppText_inputs p =
     (let sz = text_size_str (default_to SizeMedium (text_size p));
          b = default_to False (bold p);
          col = text_color_str (default_to ColorPrimary (color p));
          cen = default_to False (center p)
      in [js_and (JBool (sz = ''small'')) (JStr ''text-sm mb-2''),
          js_and (JBool (sz = ''medium'')) (JStr ''text-base mb-3''),
          js_and (JBool (sz = ''large'')) (JStr ''text-lg mb-4''),
          js_and (JBool (sz = ''heading'')) (JStr ''text-xl mb-5''),
          js_and (JBool b) (JStr ''font-bold''),
          js_and (JBool (col = ''primary'')) (JStr ''text-black''),
          js_and (JBool (col = ''secondary'')) (JStr ''text-gray-500''),
          js_and (JBool (col = ''tertiary'')) (JStr ''text-gray-400''),
          js_and (JBool cen) (JStr ''text-center'')])"

definition className_input :: "'c AppTextProps \<Rightarrow> jsval" where
  "className_input p = (case className p of None \<Rightarrow> JUndefined | Some s \<Rightarrow> JStr s)"

definition AppText :: "'c AppTextProps \<Rightarrow> 'c element" where
  "AppText p = Text (tw_style (AppText_inputs p @ [className_input p])) (children p)"

section \<open>Notions used to state the properties\<close>

text \<open>
  The classes that the property \<open>k\<close> of a table entry contributes to a class
  composition: the single class stored there, or none when the entry has no such
  property.
\<close>

definition class_of :: "obj \<Rightarrow> string \<Rightarrow> string list" where
  "class_of ob k = (case map_of ob k of None \<Rightarrow> [] | Some c \<Rightarrow> [c])"

text \<open>
  The kind of a utility class, by the utility-class vocabulary: a class name has a kind
  only when it is a name of that vocabulary, with its value where the vocabulary
  requires one (a number, a palette color, a bracketed hex color or pixel width); every
  other name is \<open>OtherClass\<close>. The first five kinds are the ones that the specification
  names.
\<close>

datatype class_kind =
  PaddingClass | RoundedClass | BackgroundColorClass | TextColorClass | OpacityClass
| BorderWidthClass | BorderColorClass | FlexLayoutClass | FontWeightClass
| LetterSpacingClass | TextSizeClass | MarginClass | TextAlignClass | OtherClass

definition strip_prefix :: "string \<Rightarrow> string \<Rightarrow> string option" where
  "strip_prefix pre s =
     (if take (length pre) s = pre then Some (drop (length pre) s) else None)"

definition has_value :: "string \<Rightarrow> (string \<Rightarrow> bool) \<Rightarrow> string \<Rightarrow> bool" where
  "has_value pre ok c = (case strip_prefix pre c of None \<Rightarrow> False | Some v \<Rightarrow> ok v)"

definition is_digits :: "string \<Rightarrow> bool" where
  "is_digits s = (s \<noteq> [] \<and> list_all (\<lambda>c. List.member ''0123456789'' c) s)"

definition is_hex :: "string \<Rightarrow> bool" where
  "is_hex s =
     (List.member [3, 4, 6, 8 :: nat] (length s) \<and>
      list_all (\<lambda>c. List.member ''0123456789abcdefABCDEF'' c) s)"

definition in_brackets :: "(string \<Rightarrow> bool) \<Rightarrow> string \<Rightarrow> bool" where
  "in_brackets ok v =
     (case v of
        [] \<Rightarrow> False
      | c # r \<Rightarrow> c = CHR ''['' \<and> r \<noteq> [] \<and> last r = CHR '']'' \<and> ok (butlast r))"

definition is_px :: "string \<Rightarrow> bool" where
  "is_px v =
     (2 < length v \<and> drop (length v - 2) v = ''px'' \<and> is_digits (take (length v - 2) v))"

definition palette :: "string list" where
  "palette =
     [''slate'', ''gray'', ''zinc'', ''neutral'', ''stone'', ''red'', ''orange'', ''amber'',
      ''yellow'', ''lime'', ''green'', ''emerald'', ''teal'', ''cyan'', ''sky'', ''blue'',
      ''indigo'', ''violet'', ''purple'', ''fuchsia'', ''pink'', ''rose'']"

definition is_color :: "string \<Rightarrow> bool" where
  "is_color v =
     (List.member [''transparent'', ''white'', ''black''] v \<or>
      list_ex (\<lambda>f. has_value (f @ ''-'') is_digits v) palette \<or>
      in_brackets (has_value ''#'' is_hex) v)"

definition kind_of :: "string \<Rightarrow> class_kind" where
  "kind_of c =
     (if list_ex (\<lambda>pre. has_value pre is_digits c)
           [''p-'', ''px-'', ''py-'', ''pt-'', ''pr-'', ''pb-'', ''pl-'']
        then PaddingClass
      else if list_ex (\<lambda>pre. has_value pre is_digits c)
           [''m-'', ''mx-'', ''my-'', ''mt-'', ''mr-'', ''mb-'', ''ml-'']
        then MarginClass
      else if List.member
           [''rounded-none'', ''rounded-sm'', ''rounded'', ''rounded-md'', ''rounded-lg'',
            ''rounded-xl'', ''rounded-2xl'', ''rounded-3xl'', ''rounded-full''] c
        then RoundedClass
      else if has_value ''bg-'' is_color c then BackgroundColorClass
      else if has_value ''opacity-'' is_digits c then OpacityClass
      else if List.member
           [''font-thin'', ''font-extralight'', ''font-light'', ''font-normal'',
            ''font-medium'', ''font-semibold'', ''font-bold'', ''font-extrabold'',
            ''font-black''] c
        then FontWeightClass
      else if List.member
           [''tracking-tighter'', ''tracking-tight'', ''tracking-normal'', ''tracking-wide'',
            ''tracking-wider'', ''tracking-widest''] c
        then LetterSpacingClass
      else if List.member
           [''text-xs'', ''text-sm'', ''text-base'', ''text-lg'', ''text-xl'', ''text-2xl'',
            ''text-3xl'', ''text-4xl'', ''text-5xl'', ''text-6xl'', ''text-7xl'',
            ''text-8xl'', ''text-9xl''] c
        then TextSizeClass
      else if List.member [''text-left'', ''text-center'', ''text-right'', ''text-justify''] c
        then TextAlignClass
      else if has_value ''text-'' is_color c then TextColorClass
      else if List.member
           [''flex-row'', ''flex-row-reverse'', ''flex-col'', ''flex-col-reverse'', ''flex-1'',
            ''flex-auto'', ''flex-initial'', ''flex-none'', ''items-start'', ''items-center'',
            ''items-end'', ''items-baseline'', ''items-stretch'', ''justify-start'',
            ''justify-center'', ''justify-end'', ''justify-between'', ''justify-around'',
            ''justify-evenly''] c
        then FlexLayoutClass
      else if List.member [''border'', ''border-0'', ''border-2'', ''border-4'', ''border-8''] c \<or>
              has_value ''border-'' (in_brackets is_px) c
        then BorderWidthClass
      else if has_value ''border-'' is_color c then BorderColorClass
      else OtherClass)"

definition spec_kinds :: "class_kind list" where
  "spec_kinds =
     [PaddingClass, RoundedClass, BackgroundColorClass, TextColorClass, OpacityClass]"

definition produced_kinds :: "class_kind list" where
  "produced_kinds = spec_kinds @
     [BorderWidthClass, BorderColorClass, FlexLayoutClass, FontWeightClass,
      LetterSpacingClass, TextSizeClass, MarginClass, TextAlignClass]"

definition produced :: "string \<Rightarrow> bool" where
  "produced c = List.member produced_kinds (kind_of c)"

section \<open>Evaluation of the helper and of the tables\<close>

lemmas COLORS_defs = COLORS_primary_def COLORS_action_def COLORS_light_def COLORS_white_def
  COLORS_black_def COLORS_gray_def COLORS_transparent_def

lemma tw_style_Nil: "tw_style [] = []"
  by (simp add: tw_style_def)

lemma tw_style_Cons: "tw_style (x # xs) = class_names x @ tw_style xs"
  by (simp add: tw_style_def)

lemma tw_style_append: "tw_style (xs @ ys) = tw_style xs @ tw_style ys"
  by (simp add: tw_style_def)

lemma class_names_js_and: "class_names (js_and (JBool b) v) = (if b then class_names v else [])"
  by (simp add: js_and_def)

lemma js_and_bools: "js_and (JBool a) (JBool b) = JBool (a \<and> b)"
  by (cases a) (simp_all add: js_and_def)

lemma default_to_True_iff: "default_to False b = (b = Some True)"
  by (cases b) simp_all

lemma disabled_of_iff: "disabled_of p = (disabled p = Some True)"
  by (simp add: disabled_of_def default_to_True_iff)

lemma loading_of_iff: "loading_of p = (loading p = Some True)"
  by (simp add: loading_of_def default_to_True_iff)

lemma theme_lookup:
  "map_of themeConfig ''primary'' = Some
     [(''bg'', ''bg-[#F02C56]''), (''border'', ''border-[#F02C56]''), (''text'', ''text-white''),
      (''pressedBg'', ''bg-[#d02647]''), (''disabledBg'', ''bg-[#f59db3]'')]"
  "map_of themeConfig ''action'' = Some
     [(''bg'', ''bg-[#0095f6]''), (''border'', ''border-[#0095f6]''), (''text'', ''text-white''),
      (''pressedBg'', ''bg-[#0077cc]''), (''disabledBg'', ''bg-[#7fc7fa]'')]"
  "map_of themeConfig ''light'' = Some
     [(''bg'', ''bg-[#f1f1f1]''), (''border'', ''border-[#f1f1f1]''), (''text'', ''text-black''),
      (''pressedBg'', ''bg-[#e0e0e0]''), (''disabledBg'', ''bg-[#f8f8f8]'')]"
  "map_of themeConfig ''primary-outlined'' = Some
     [(''bg'', ''bg-transparent''), (''border'', ''border-[#F02C56]''),
      (''text'', ''text-[#F02C56]''), (''pressedBg'', ''bg-[#fef0f3]''),
      (''disabledBg'', ''bg-transparent''), (''disabledText'', ''text-[#f59db3]'')]"
  "map_of themeConfig ''action-outlined'' = Some
     [(''bg'', ''bg-transparent''), (''border'', ''border-[#0095f6]''),
      (''text'', ''text-[#0095f6]''), (''pressedBg'', ''bg-[#e6f5ff]''),
      (''disabledBg'', ''bg-transparent''), (''disabledText'', ''text-[#7fc7fa]'')]"
  "map_of themeConfig ''light-outlined'' = Some
     [(''bg'', ''bg-transparent''), (''border'', ''border-[#8e8e8e]''),
      (''text'', ''text-gray-800''), (''pressedBg'', ''bg-[#f8f8f8]''),
      (''disabledBg'', ''bg-transparent''), (''disabledText'', ''text-gray-400'')]"
  by (simp_all add: themeConfig_def COLORS_defs)

lemma size_lookup:
  "map_of sizeConfig ''small'' = Some
     [(''paddingX'', ''px-3''), (''paddingY'', ''py-2''), (''textSize'', ''text-sm''),
      (''rounded'', ''rounded-md'')]"
  "map_of sizeConfig ''medium'' = Some
     [(''paddingX'', ''px-4''), (''paddingY'', ''py-3''), (''textSize'', ''text-base''),
      (''rounded'', ''rounded-lg'')]"
  "map_of sizeConfig ''large'' = Some
     [(''paddingX'', ''px-6''), (''paddingY'', ''py-4''), (''textSize'', ''text-lg''),
      (''rounded'', ''rounded-lg'')]"
  "map_of sizeConfig ''xlarge'' = Some
     [(''paddingX'', ''px-8''), (''paddingY'', ''py-5''), (''textSize'', ''text-xl''),
      (''rounded'', ''rounded-xl'')]"
  by (simp_all add: sizeConfig_def)

lemma theme_entry_defined: "\<exists>ts. map_of themeConfig (theme_str th) = Some ts"
  by (cases th) (simp_all add: theme_lookup)

lemma size_entry_defined: "\<exists>ss. map_of sizeConfig (size_str sz) = Some ss"
  by (cases sz) (simp_all add: size_lookup)

lemma theme_fields_defined:
  assumes "map_of themeConfig (theme_str th) = Some ts"
  shows "\<exists>c. map_of ts ''bg'' = Some c \<and> c \<noteq> []"
    and "\<exists>c. map_of ts ''border'' = Some c \<and> c \<noteq> []"
    and "\<exists>c. map_of ts ''text'' = Some c \<and> c \<noteq> []"
    and "\<exists>c. map_of ts ''pressedBg'' = Some c"
    and "\<exists>c. map_of ts ''disabledBg'' = Some c"
  using assms by (cases th; clarsimp simp: theme_lookup)+

lemma size_fields_defined:
  assumes "map_of sizeConfig (size_str sz) = Some ss"
  shows "\<exists>c. map_of ss ''paddingX'' = Some c \<and> c \<noteq> []"
    and "\<exists>c. map_of ss ''paddingY'' = Some c \<and> c \<noteq> []"
    and "\<exists>c. map_of ss ''textSize'' = Some c \<and> c \<noteq> []"
    and "\<exists>c. map_of ss ''rounded'' = Some c \<and> c \<noteq> []"
  using assms by (cases sz; clarsimp simp: size_lookup)+

lemma theme_entry_single:
  assumes "map_of themeConfig (theme_str th) = Some ts" and "(k, c) \<in> set ts"
  shows "split_ws c = [c]"
  using assms
  by (cases th; clarsimp simp: theme_lookup; elim disjE; simp add: split_ws_def is_space_def)

lemma size_entry_single:
  assumes "map_of sizeConfig (size_str sz) = Some ss" and "(k, c) \<in> set ss"
  shows "split_ws c = [c]"
  using assms
  by (cases sz; clarsimp simp: size_lookup; elim disjE; simp add: split_ws_def is_space_def)

lemma themeStyles_defined: "\<exists>ts. themeStyles p = Some ts"
  unfolding themeStyles_def by (rule theme_entry_defined)

lemma sizeStyles_defined: "\<exists>ss. sizeStyles p = Some ss"
  unfolding sizeStyles_def by (rule size_entry_defined)

lemma class_names_theme_field:
  assumes "themeStyles p = Some ts"
  shows "class_names (field ts k) = class_of ts k"
proof (cases "map_of ts k")
  case None
  then show ?thesis by (simp add: field_def class_of_def)
next
  case (Some c)
  then have "(k, c) \<in> set ts" by (rule map_of_SomeD)
  with assms have "split_ws c = [c]"
    unfolding themeStyles_def by (rule theme_entry_single)
  with Some show ?thesis by (simp add: field_def class_of_def)
qed

lemma class_names_size_field:
  assumes "sizeStyles p = Some ss"
  shows "class_names (field ss k) = class_of ss k"
proof (cases "map_of ss k")
  case None
  then show ?thesis by (simp add: field_def class_of_def)
next
  case (Some c)
  then have "(k, c) \<in> set ss" by (rule map_of_SomeD)
  with assms have "split_ws c = [c]"
    unfolding sizeStyles_def by (rule size_entry_single)
  with Some show ?thesis by (simp add: field_def class_of_def)
qed

lemma literal_classes:
  "split_ws ''flex-row items-center justify-center border-[1px]'' =
     [''flex-row'', ''items-center'', ''justify-center'', ''border-[1px]'']"
  "split_ws ''font-semibold tracking-wide'' = [''font-semibold'', ''tracking-wide'']"
  "split_ws ''opacity-60'' = [''opacity-60'']"
  "split_ws ''flex-1'' = [''flex-1'']"
  by (simp_all add: split_ws_def is_space_def)

section \<open>What Button renders\<close>

lemma pressable_style_eq:
  assumes ss: "sizeStyles p = Some ss" and ts: "themeStyles p = Some ts"
  shows "pressable_style p pressed =
     Inr ([''flex-row'', ''items-center'', ''justify-center'', ''border-[1px]''] @
          class_of ss ''paddingX'' @ class_of ss ''paddingY'' @ class_of ss ''rounded'' @
          class_of ts ''bg'' @ class_of ts ''border'' @
          (if pressed \<and> \<not> isDisabled p then class_of ts ''pressedBg'' else []) @
          (if isDisabled p then class_of ts ''disabledBg'' @ [''opacity-60''] else []) @
          (if full_of p then [''flex-1''] else []),
          style_prop p)"
  unfolding pressable_style_def
  by (simp add: ss ts tw_style_Cons tw_style_Nil class_names_js_and js_and_bools
      class_names_size_field [OF ss] class_names_theme_field [OF ts] literal_classes)

lemma button_children_eq:
  assumes ss: "sizeStyles p = Some ss" and ts: "themeStyles p = Some ts"
  shows "button_children p =
     Inr (if loading_of p then ActivityIndicator ''small'' (getSpinnerColor (theme_of p))
          else Text ([''font-semibold'', ''tracking-wide''] @ class_of ss ''textSize'' @
                     class_of ts ''text'' @
                     (if isDisabled p then class_of ts ''disabledText'' else []))
                 (title p))"
  unfolding button_children_def
  by (simp add: ss ts tw_style_Cons tw_style_Nil class_names_js_and
      class_names_size_field [OF ss] class_names_theme_field [OF ts] literal_classes)

lemma Button_eq:
  assumes ss: "sizeStyles p = Some ss" and ts: "themeStyles p = Some ts"
  shows "Button p =
     Inr \<lparr>pr_onPress = onPress p, pr_disabled = isDisabled p,
          pr_style = pressable_style p, pr_rest = rest p,
          pr_children =
            (if loading_of p then ActivityIndicator ''small'' (getSpinnerColor (theme_of p))
             else Text ([''font-semibold'', ''tracking-wide''] @ class_of ss ''textSize'' @
                     class_of ts ''text'' @
                     (if isDisabled p then class_of ts ''disabledText'' else []))
                 (title p))\<rparr>"
  unfolding Button_def by (simp add: button_children_eq [OF ss ts])


section \<open>What AppText renders\<close>

lemma AppText_inputs_classes:
  "tw_style (AppText_inputs p) =
     (case default_to SizeMedium (text_size p) of
        SizeSmall \<Rightarrow> [''text-sm'', ''mb-2'']
      | SizeMedium \<Rightarrow> [''text-base'', ''mb-3'']
      | SizeLarge \<Rightarrow> [''text-lg'', ''mb-4'']
      | SizeHeading \<Rightarrow> [''text-xl'', ''mb-5'']) @
     (if default_to False (bold p) then [''font-bold''] else []) @
     (case default_to ColorPrimary (color p) of
        ColorPrimary \<Rightarrow> [''text-black'']
      | ColorSecondary \<Rightarrow> [''text-gray-500'']
      | ColorTertiary \<Rightarrow> [''text-gray-400'']) @
     (if default_to False (center p) then [''text-center''] else [])"
  unfolding AppText_inputs_def Let_def
  by (cases "default_to SizeMedium (text_size p)"; cases "default_to ColorPrimary (color p)";
      simp add: tw_style_Cons tw_style_Nil class_names_js_and split_ws_def is_space_def)

lemma className_classes:
  "tw_style [className_input p] = (case className p of None \<Rightarrow> [] | Some s \<Rightarrow> split_ws s)"
  by (simp add: className_input_def tw_style_Cons tw_style_Nil split: option.split)

lemma AppText_eq:
  "AppText p =
     Text (tw_style (AppText_inputs p) @
           (case className p of None \<Rightarrow> [] | Some s \<Rightarrow> split_ws s))
       (children p)"
  by (simp add: AppText_def tw_style_append className_classes)

section \<open>The classes of the table entries\<close>

lemma theme_pressedBg_fresh:
  assumes ts: "themeStyles p = Some ts" and c: "map_of ts ''pressedBg'' = Some c"
  shows "take 3 c = ''bg-''"
    and "c \<notin> set (class_of ts ''bg'' @ class_of ts ''border'' @ class_of ts ''disabledBg'')"
  using ts c unfolding themeStyles_def
  by (cases "theme_of p"; clarsimp simp: theme_lookup class_of_def)+

lemma size_class_not_bg:
  assumes ss: "sizeStyles p = Some ss" and d: "d \<in> set (class_of ss k)"
  shows "take 3 d \<noteq> ''bg-''"
  using ss d unfolding sizeStyles_def
  by (cases "size_of p"; clarsimp simp: size_lookup class_of_def split: if_splits)

lemma pressedBg_fresh:
  assumes ss: "sizeStyles p = Some ss" and ts: "themeStyles p = Some ts"
    and c: "map_of ts ''pressedBg'' = Some c"
  shows "c \<notin> set ([''flex-row'', ''items-center'', ''justify-center'', ''border-[1px]''] @
          class_of ss ''paddingX'' @ class_of ss ''paddingY'' @ class_of ss ''rounded'' @
          class_of ts ''bg'' @ class_of ts ''border'' @ class_of ts ''disabledBg'' @
          [''opacity-60'', ''flex-1''])"
proof -
  have bg: "take 3 c = ''bg-''" by (rule theme_pressedBg_fresh(1) [OF ts c])
  have "c \<notin> set (class_of ss k)" for k
    using size_class_not_bg [OF ss, of c k] bg by blast
  moreover have "c \<notin> set [''flex-row'', ''items-center'', ''justify-center'', ''border-[1px]'',
      ''opacity-60'', ''flex-1'']"
    using bg by auto
  ultimately show ?thesis
    using theme_pressedBg_fresh(2) [OF ts c] by simp
qed


lemma theme_pressedBg_value:
  assumes "map_of themeConfig (theme_str th) = Some ts" and "map_of ts ''pressedBg'' = Some c"
  shows "c =
     (case th of
        Primary \<Rightarrow> ''bg-[#d02647]''
      | Action \<Rightarrow> ''bg-[#0077cc]''
      | Light \<Rightarrow> ''bg-[#e0e0e0]''
      | PrimaryOutlined \<Rightarrow> ''bg-[#fef0f3]''
      | ActionOutlined \<Rightarrow> ''bg-[#e6f5ff]''
      | LightOutlined \<Rightarrow> ''bg-[#f8f8f8]'')"
  using assms by (cases th; clarsimp simp: theme_lookup)

lemma produced_classes:
  "produced ''flex-row''" "produced ''items-center''" "produced ''justify-center''"
  "produced ''border-[1px]''" "produced ''opacity-60''" "produced ''flex-1''"
  "produced ''font-semibold''" "produced ''tracking-wide''"
  "produced ''px-3''" "produced ''py-2''" "produced ''text-sm''" "produced ''rounded-md''"
  "produced ''px-4''" "produced ''py-3''" "produced ''text-base''" "produced ''rounded-lg''"
  "produced ''px-6''" "produced ''py-4''" "produced ''text-lg''"
  "produced ''px-8''" "produced ''py-5''" "produced ''text-xl''" "produced ''rounded-xl''"
  "produced ''bg-[#F02C56]''" "produced ''border-[#F02C56]''" "produced ''text-white''"
  "produced ''bg-[#d02647]''" "produced ''bg-[#f59db3]''"
  "produced ''bg-[#0095f6]''" "produced ''border-[#0095f6]''"
  "produced ''bg-[#0077cc]''" "produced ''bg-[#7fc7fa]''"
  "produced ''bg-[#f1f1f1]''" "produced ''border-[#f1f1f1]''" "produced ''text-black''"
  "produced ''bg-[#e0e0e0]''" "produced ''bg-[#f8f8f8]''"
  "produced ''bg-transparent''" "produced ''text-[#F02C56]''" "produced ''bg-[#fef0f3]''"
  "produced ''text-[#f59db3]''" "produced ''text-[#0095f6]''" "produced ''bg-[#e6f5ff]''"
  "produced ''text-[#7fc7fa]''" "produced ''border-[#8e8e8e]''" "produced ''text-gray-800''"
  "produced ''text-gray-400''" "produced ''text-gray-500''"
  "produced ''mb-2''" "produced ''mb-3''" "produced ''mb-4''" "produced ''mb-5''"
  "produced ''font-bold''" "produced ''text-center''"
  by code_simp+

lemma theme_classes_produced:
  assumes ts: "themeStyles p = Some ts"
  shows "list_all produced (class_of ts ''bg'')"
    and "list_all produced (class_of ts ''border'')"
    and "list_all produced (class_of ts ''pressedBg'')"
    and "list_all produced (class_of ts ''disabledBg'')"
    and "list_all produced (class_of ts ''text'')"
    and "list_all produced (class_of ts ''disabledText'')"
  using ts unfolding themeStyles_def
  by (cases "theme_of p"; clarsimp simp: theme_lookup class_of_def produced_classes)+

lemma size_classes_produced:
  assumes ss: "sizeStyles p = Some ss"
  shows "list_all produced (class_of ss ''paddingX'')"
    and "list_all produced (class_of ss ''paddingY'')"
    and "list_all produced (class_of ss ''rounded'')"
    and "list_all produced (class_of ss ''textSize'')"
  using ss unfolding sizeStyles_def
  by (cases "size_of p"; clarsimp simp: size_lookup class_of_def produced_classes)+

lemma fixed_classes_produced:
  "list_all produced [''flex-row'', ''items-center'', ''justify-center'', ''border-[1px]'']"
  "list_all produced [''opacity-60'']"
  "list_all produced [''flex-1'']"
  "list_all produced [''font-semibold'', ''tracking-wide'']"
  by (simp_all add: produced_classes)

lemma AppText_classes_produced: "list_all produced (tw_style (AppText_inputs a))"
  unfolding AppText_inputs_classes
  by (cases "default_to SizeMedium (text_size a)"; cases "default_to ColorPrimary (color a)";
      simp add: produced_classes)

lemma kinds_outside_spec:
  "kind_of ''flex-row'' = FlexLayoutClass" "kind_of ''border-[1px]'' = BorderWidthClass"
  "kind_of ''border-[#F02C56]'' = BorderColorClass" "kind_of ''font-semibold'' = FontWeightClass"
  "kind_of ''tracking-wide'' = LetterSpacingClass" "kind_of ''text-base'' = TextSizeClass"
  "kind_of ''mb-3'' = MarginClass" "kind_of ''text-center'' = TextAlignClass"
  by code_simp+

section \<open>Properties of the tables\<close>

text \<open>
  Claim C4. The theme and size table lookups are total: every theme has an entry in
  \<open>themeConfig\<close> whose bg, border and text classes are defined, and every size has an
  entry in \<open>sizeConfig\<close> whose paddingX, paddingY, textSize and rounded classes are
  defined. Hence Button renders an element for all props, and its style callback returns
  a style for either press state: no property of a missing table entry is ever read.
\<close>

theorem table_lookups_total:
  "(\<exists>ts bg bd tx. map_of themeConfig (theme_str th) = Some ts \<and>
       map_of ts ''bg'' = Some bg \<and> bg \<noteq> [] \<and>
       map_of ts ''border'' = Some bd \<and> bd \<noteq> [] \<and>
       map_of ts ''text'' = Some tx \<and> tx \<noteq> []) \<and>
   (\<exists>ss px py tz rd. map_of sizeConfig (size_str sz) = Some ss \<and>
       map_of ss ''paddingX'' = Some px \<and> px \<noteq> [] \<and>
       map_of ss ''paddingY'' = Some py \<and> py \<noteq> [] \<and>
       map_of ss ''textSize'' = Some tz \<and> tz \<noteq> [] \<and>
       map_of ss ''rounded'' = Some rd \<and> rd \<noteq> []) \<and>
   (\<exists>el. Button p = Inr el \<and> (\<forall>pressed. \<exists>s. pr_style el pressed = Inr s))"
proof (intro conjI)
  obtain ts where ts: "map_of themeConfig (theme_str th) = Some ts"
    using theme_entry_defined by blast
  from ts theme_fields_defined(1,2,3) [OF ts]
  show "\<exists>ts bg bd tx. map_of themeConfig (theme_str th) = Some ts \<and>
       map_of ts ''bg'' = Some bg \<and> bg \<noteq> [] \<and>
       map_of ts ''border'' = Some bd \<and> bd \<noteq> [] \<and>
       map_of ts ''text'' = Some tx \<and> tx \<noteq> []"
    by blast
next
  obtain ss where ss: "map_of sizeConfig (size_str sz) = Some ss"
    using size_entry_defined by blast
  from ss size_fields_defined [OF ss]
  show "\<exists>ss px py tz rd. map_of sizeConfig (size_str sz) = Some ss \<and>
       map_of ss ''paddingX'' = Some px \<and> px \<noteq> [] \<and>
       map_of ss ''paddingY'' = Some py \<and> py \<noteq> [] \<and>
       map_of ss ''textSize'' = Some tz \<and> tz \<noteq> [] \<and>
       map_of ss ''rounded'' = Some rd \<and> rd \<noteq> []"
    by blast
next
  obtain ss where ss: "sizeStyles p = Some ss" using sizeStyles_defined by blast
  obtain ts where ts: "themeStyles p = Some ts" using themeStyles_defined by blast
  from Button_eq [OF ss ts] obtain el
    where el: "Button p = Inr el" and sty: "pr_style el = pressable_style p"
    by simp
  have "\<exists>s. pr_style el pressed = Inr s" for pressed
    unfolding sty by (simp add: pressable_style_eq [OF ss ts])
  with el show "\<exists>el. Button p = Inr el \<and> (\<forall>pressed. \<exists>s. pr_style el pressed = Inr s)"
    by blast
qed

section \<open>Properties of Button\<close>

text \<open>
  Claim C2. For all props, Button renders a Pressable whose child is an
  ActivityIndicator if and only if the loading prop is true; otherwise the child is one
  Text element whose content is the title prop.
\<close>

theorem Button_child_spinner_iff_loading:
  "\<exists>el. Button p = Inr el \<and>
     ((\<exists>sz col. pr_children el = ActivityIndicator sz col) = (loading p = Some True)) \<and>
     (loading p = Some True \<or> (\<exists>cls. pr_children el = Text cls (title p)))"
proof -
  obtain ss where ss: "sizeStyles p = Some ss" using sizeStyles_defined by blast
  obtain ts where ts: "themeStyles p = Some ts" using themeStyles_defined by blast
  show ?thesis
    by (simp add: Button_eq [OF ss ts] loading_of_iff)
qed

text \<open>
  Claim C9. For all props, the disabled flag of the rendered Pressable equals
  (disabled or loading), so loading alone sets the flag; the handler is passed on
  unchanged. That a Pressable whose flag is set never calls its handler is the toolkit's
  behaviour.
\<close>

theorem Pressable_disabled_flag:
  "\<exists>el. Button p = Inr el \<and>
     pr_disabled el = (disabled p = Some True \<or> loading p = Some True) \<and>
     pr_onPress el = onPress p"
proof -
  obtain ss where ss: "sizeStyles p = Some ss" using sizeStyles_defined by blast
  obtain ts where ts: "themeStyles p = Some ts" using themeStyles_defined by blast
  show ?thesis
    by (simp add: Button_eq [OF ss ts] isDisabled_def disabled_of_iff loading_of_iff)
qed



text \<open>
  Claim C7. For all props and either press state, the pressedBg class that
  \<open>themeConfig\<close> gives for the theme prop (primary-outlined when the prop is omitted) is
  among the classes of the computed Pressable style if and only if the button is pressed
  and neither disabled nor loading is true. The class is \<open>bg-[#d02647]\<close> for primary,
  \<open>bg-[#0077cc]\<close> for action, \<open>bg-[#e0e0e0]\<close> for light, \<open>bg-[#fef0f3]\<close> for
  primary-outlined, \<open>bg-[#e6f5ff]\<close> for action-outlined and \<open>bg-[#f8f8f8]\<close> for
  light-outlined.
\<close>

theorem pressedBg_iff_pressed_enabled:
  "\<exists>el cls st ts c. Button p = Inr el \<and> pr_style el pressed = Inr (cls, st) \<and>
     map_of themeConfig (theme_str (default_to PrimaryOutlined (theme p))) = Some ts \<and>
     map_of ts ''pressedBg'' = Some c \<and>
     c =
       (case default_to PrimaryOutlined (theme p) of
          Primary \<Rightarrow> ''bg-[#d02647]''
        | Action \<Rightarrow> ''bg-[#0077cc]''
        | Light \<Rightarrow> ''bg-[#e0e0e0]''
        | PrimaryOutlined \<Rightarrow> ''bg-[#fef0f3]''
        | ActionOutlined \<Rightarrow> ''bg-[#e6f5ff]''
        | LightOutlined \<Rightarrow> ''bg-[#f8f8f8]'') \<and>
     ((c \<in> set cls) =
        (pressed \<and> disabled p \<noteq> Some True \<and> loading p \<noteq> Some True))"
proof -
  obtain ss where ss: "sizeStyles p = Some ss" using sizeStyles_defined by blast
  obtain ts where ts: "themeStyles p = Some ts" using themeStyles_defined by blast
  have tbl: "map_of themeConfig (theme_str (default_to PrimaryOutlined (theme p))) = Some ts"
    using ts by (simp add: themeStyles_def theme_of_def)
  obtain c where c: "map_of ts ''pressedBg'' = Some c"
    using theme_fields_defined(4) [OF tbl] by blast
  have val: "c =
       (case default_to PrimaryOutlined (theme p) of
          Primary \<Rightarrow> ''bg-[#d02647]''
        | Action \<Rightarrow> ''bg-[#0077cc]''
        | Light \<Rightarrow> ''bg-[#e0e0e0]''
        | PrimaryOutlined \<Rightarrow> ''bg-[#fef0f3]''
        | ActionOutlined \<Rightarrow> ''bg-[#e6f5ff]''
        | LightOutlined \<Rightarrow> ''bg-[#f8f8f8]'')"
    by (rule theme_pressedBg_value [OF tbl c])
  let ?cls = "[''flex-row'', ''items-center'', ''justify-center'', ''border-[1px]''] @
          class_of ss ''paddingX'' @ class_of ss ''paddingY'' @ class_of ss ''rounded'' @
          class_of ts ''bg'' @ class_of ts ''border'' @
          (if pressed \<and> \<not> isDisabled p then class_of ts ''pressedBg'' else []) @
          (if isDisabled p then class_of ts ''disabledBg'' @ [''opacity-60''] else []) @
          (if full_of p then [''flex-1''] else [])"
  have sty: "pressable_style p pressed = Inr (?cls, style_prop p)"
    by (rule pressable_style_eq [OF ss ts])
  have mem: "(c \<in> set ?cls) =
      (pressed \<and> disabled p \<noteq> Some True \<and> loading p \<noteq> Some True)"
    using pressedBg_fresh [OF ss ts c] c
    by (auto simp: class_of_def isDisabled_def disabled_of_iff loading_of_iff)
  from Button_eq [OF ss ts] obtain el
    where el: "Button p = Inr el" "pr_style el = pressable_style p"
    by simp
  from el sty tbl c val mem show ?thesis by metis
qed

text \<open>
  Instance of C7 at a primary button that is neither disabled nor loading: its pressed
  style holds primary's pressedBg class \<open>bg-[#d02647]\<close> and its unpressed style does not.
\<close>

theorem pressedBg_iff_pressed_enabled_witness:
  "(\<exists>el cls st. Button \<lparr>title = ''Save'', onPress = None :: unit option,
       theme = Some Primary, size_prop = None, disabled = None, loading = None, full = None,
       style_prop = None, rest = []\<rparr> = Inr el \<and>
     pr_style el True = Inr (cls, st) \<and> ''bg-[#d02647]'' \<in> set cls) \<and>
   (\<exists>el cls st. Button \<lparr>title = ''Save'', onPress = None :: unit option,
       theme = Some Primary, size_prop = None, disabled = None, loading = None, full = None,
       style_prop = None, rest = []\<rparr> = Inr el \<and>
     pr_style el False = Inr (cls, st) \<and> ''bg-[#d02647]'' \<notin> set cls)"
  using pressedBg_iff_pressed_enabled [of "\<lparr>title = ''Save'', onPress = None :: unit option,
       theme = Some Primary, size_prop = None, disabled = None, loading = None, full = None,
       style_prop = None, rest = []\<rparr>" True]
    pressedBg_iff_pressed_enabled [of "\<lparr>title = ''Save'', onPress = None :: unit option,
       theme = Some Primary, size_prop = None, disabled = None, loading = None, full = None,
       style_prop = None, rest = []\<rparr>" False]
  by clarsimp




text \<open>
  Claim C8, as amended. With theme, size, disabled, loading and full omitted, Button
  renders as theme primary-outlined and size medium: an enabled Pressable with
  transparent background, border color \<open>#F02C56\<close>, padding \<open>px-4 py-3\<close> and corners
  \<open>rounded-lg\<close>, without \<open>flex-1\<close>, whose label has text color \<open>#F02C56\<close>; it renders
  as the button with these five values given explicitly does. With size, bold, color,
  center and className omitted, AppText renders with exactly the classes
  \<open>text-base mb-3\<close> and \<open>text-black\<close>, so without \<open>font-bold\<close> and \<open>text-center\<close>. With
  the four props omitted and a className given, the classes of the className follow
  these three, and AppText renders as the text with the four defaults given explicitly
  does.
\<close>

theorem omitted_props_defaults:
  "Button \<lparr>title = t, onPress = h, theme = None, size_prop = None, disabled = None,
      loading = None, full = None, style_prop = s, rest = r\<rparr> =
     Inr \<lparr>pr_onPress = h, pr_disabled = False,
          pr_style =
            (\<lambda>pressed.
               Inr ([''flex-row'', ''items-center'', ''justify-center'', ''border-[1px]'',
                     ''px-4'', ''py-3'', ''rounded-lg'', ''bg-transparent'',
                     ''border-[#F02C56]''] @
                    (if pressed then [''bg-[#fef0f3]''] else []), s)),
          pr_rest = r,
          pr_children =
            Text [''font-semibold'', ''tracking-wide'', ''text-base'', ''text-[#F02C56]''] t\<rparr> \<and>
   Button \<lparr>title = t, onPress = h, theme = None, size_prop = None, disabled = None,
      loading = None, full = None, style_prop = s, rest = r\<rparr> =
     Button \<lparr>title = t, onPress = h, theme = Some PrimaryOutlined, size_prop = Some Medium,
       disabled = Some False, loading = Some False, full = Some False, style_prop = s,
       rest = r\<rparr> \<and>
   AppText \<lparr>children = c, text_size = None, bold = None, color = None, center = None,
      className = cn\<rparr> =
     Text ([''text-base'', ''mb-3'', ''text-black''] @
           (case cn of None \<Rightarrow> [] | Some x \<Rightarrow> split_ws x)) c \<and>
   AppText \<lparr>children = c, text_size = None, bold = None, color = None, center = None,
      className = cn\<rparr> =
     AppText \<lparr>children = c, text_size = Some SizeMedium, bold = Some False,
       color = Some ColorPrimary, center = Some False, className = cn\<rparr> \<and>
   AppText \<lparr>children = c, text_size = None, bold = None, color = None, center = None,
      className = None\<rparr> = Text [''text-base'', ''mb-3'', ''text-black''] c \<and>
   ''font-bold'' \<notin> set [''text-base'', ''mb-3'', ''text-black''] \<and>
   ''text-center'' \<notin> set [''text-base'', ''mb-3'', ''text-black'']"
proof (intro conjI)
  let ?P = "\<lparr>title = t, onPress = h, theme = None, size_prop = None, disabled = None,
      loading = None, full = None, style_prop = s, rest = r\<rparr>"
  let ?Q = "\<lparr>title = t, onPress = h, theme = Some PrimaryOutlined, size_prop = Some Medium,
       disabled = Some False, loading = Some False, full = Some False, style_prop = s,
       rest = r\<rparr>"
  let ?R = "Inr \<lparr>pr_onPress = h, pr_disabled = False,
          pr_style =
            (\<lambda>pressed.
               Inr ([''flex-row'', ''items-center'', ''justify-center'', ''border-[1px]'',
                     ''px-4'', ''py-3'', ''rounded-lg'', ''bg-transparent'',
                     ''border-[#F02C56]''] @
                    (if pressed then [''bg-[#fef0f3]''] else []), s)),
          pr_rest = r,
          pr_children =
            Text [''font-semibold'', ''tracking-wide'', ''text-base'', ''text-[#F02C56]''] t\<rparr>"
  have main: "Button x = ?R"
    if th: "theme_of x = PrimaryOutlined" and sz: "size_of x = Medium"
      and flags: "\<not> isDisabled x" "\<not> loading_of x" "\<not> full_of x"
      and same: "title x = t" "onPress x = h" "style_prop x = s" "rest x = r"
    for x :: "'a ButtonProps"
  proof -
    have ss: "sizeStyles x = Some
       [(''paddingX'', ''px-4''), (''paddingY'', ''py-3''), (''textSize'', ''text-base''),
        (''rounded'', ''rounded-lg'')]"
      by (simp add: sizeStyles_def sz size_lookup)
    have ts: "themeStyles x = Some
       [(''bg'', ''bg-transparent''), (''border'', ''border-[#F02C56]''),
        (''text'', ''text-[#F02C56]''), (''pressedBg'', ''bg-[#fef0f3]''),
        (''disabledBg'', ''bg-transparent''), (''disabledText'', ''text-[#f59db3]'')]"
      by (simp add: themeStyles_def th theme_lookup)
    have sty: "pressable_style x =
        (\<lambda>pressed.
           Inr ([''flex-row'', ''items-center'', ''justify-center'', ''border-[1px]'',
                 ''px-4'', ''py-3'', ''rounded-lg'', ''bg-transparent'',
                 ''border-[#F02C56]''] @
                (if pressed then [''bg-[#fef0f3]''] else []), s))"
      by (rule ext) (simp add: pressable_style_eq [OF ss ts] flags same class_of_def)
    show ?thesis
      by (simp add: Button_eq [OF ss ts] sty flags same class_of_def)
  qed
  have P: "Button ?P = ?R"
    by (rule main)
      (simp_all add: theme_of_def size_of_def isDisabled_def disabled_of_def loading_of_def
        full_of_def)
  have Q: "Button ?Q = ?R"
    by (rule main)
      (simp_all add: theme_of_def size_of_def isDisabled_def disabled_of_def loading_of_def
        full_of_def)
  show "Button ?P = ?R" by (rule P)
  show "Button ?P = Button ?Q" by (simp only: P Q)
  show "AppText \<lparr>children = c, text_size = None, bold = None, color = None, center = None,
      className = cn\<rparr> =
     Text ([''text-base'', ''mb-3'', ''text-black''] @
           (case cn of None \<Rightarrow> [] | Some x \<Rightarrow> split_ws x)) c"
    by (simp add: AppText_eq AppText_inputs_classes)
  show "AppText \<lparr>children = c, text_size = None, bold = None, color = None, center = None,
      className = cn\<rparr> =
     AppText \<lparr>children = c, text_size = Some SizeMedium, bold = Some False,
       color = Some ColorPrimary, center = Some False, className = cn\<rparr>"
    by (simp add: AppText_def AppText_inputs_def className_input_def)
  show "AppText \<lparr>children = c, text_size = None, bold = None, color = None, center = None,
      className = None\<rparr> = Text [''text-base'', ''mb-3'', ''text-black''] c"
    by (simp add: AppText_eq AppText_inputs_classes)
  show "''font-bold'' \<notin> set [''text-base'', ''mb-3'', ''text-black'']"
    by simp
  show "''text-center'' \<notin> set [''text-base'', ''mb-3'', ''text-black'']"
    by simp
qed

text \<open>
  Counterexample to C8 as stated: with size, bold, color and center omitted and the
  className \<open>font-bold text-center\<close>, AppText renders both \<open>font-bold\<close> and
  \<open>text-center\<close>.
\<close>

theorem AppText_defaults_className_adds_bold_center:
  "AppText \<lparr>children = (), text_size = None, bold = None, color = None, center = None,
      className = Some ''font-bold text-center''\<rparr> =
     Text [''text-base'', ''mb-3'', ''text-black'', ''font-bold'', ''text-center''] ()"
  by (simp add: AppText_eq AppText_inputs_classes split_ws_def is_space_def)

section \<open>Properties of AppText and of both components\<close>

text \<open>
  Claim C5, as amended. For all props, the classes of the Text that AppText renders are
  the classes that the size, bold, color and center props select, in this order,
  followed by the classes of the className prop when one is given. The props select
  exactly: \<open>text-sm mb-2\<close>, \<open>text-base mb-3\<close>, \<open>text-lg mb-4\<close> or \<open>text-xl mb-5\<close> for
  size small, medium, large or heading; \<open>text-black\<close>, \<open>text-gray-500\<close> or
  \<open>text-gray-400\<close> for color primary, secondary or tertiary; and among the selected
  classes \<open>font-bold\<close> occurs if and only if bold is true and \<open>text-center\<close> if and only
  if center is true.
\<close>

theorem AppText_class_table:
  "\<exists>cls. AppText p =
       Text (cls @ (case className p of None \<Rightarrow> [] | Some x \<Rightarrow> split_ws x)) (children p) \<and>
     cls =
       (case default_to SizeMedium (text_size p) of
          SizeSmall \<Rightarrow> [''text-sm'', ''mb-2'']
        | SizeMedium \<Rightarrow> [''text-base'', ''mb-3'']
        | SizeLarge \<Rightarrow> [''text-lg'', ''mb-4'']
        | SizeHeading \<Rightarrow> [''text-xl'', ''mb-5'']) @
       (if bold p = Some True then [''font-bold''] else []) @
       (case default_to ColorPrimary (color p) of
          ColorPrimary \<Rightarrow> [''text-black'']
        | ColorSecondary \<Rightarrow> [''text-gray-500'']
        | ColorTertiary \<Rightarrow> [''text-gray-400'']) @
       (if center p = Some True then [''text-center''] else []) \<and>
     ((''font-bold'' \<in> set cls) = (bold p = Some True)) \<and>
     ((''text-center'' \<in> set cls) = (center p = Some True))"
proof -
  let ?cls = "tw_style (AppText_inputs p)"
  have eq: "?cls =
       (case default_to SizeMedium (text_size p) of
          SizeSmall \<Rightarrow> [''text-sm'', ''mb-2'']
        | SizeMedium \<Rightarrow> [''text-base'', ''mb-3'']
        | SizeLarge \<Rightarrow> [''text-lg'', ''mb-4'']
        | SizeHeading \<Rightarrow> [''text-xl'', ''mb-5'']) @
       (if bold p = Some True then [''font-bold''] else []) @
       (case default_to ColorPrimary (color p) of
          ColorPrimary \<Rightarrow> [''text-black'']
        | ColorSecondary \<Rightarrow> [''text-gray-500'']
        | ColorTertiary \<Rightarrow> [''text-gray-400'']) @
       (if center p = Some True then [''text-center''] else [])"
    by (simp add: AppText_inputs_classes default_to_True_iff)
  have b: "(''font-bold'' \<in> set ?cls) = (bold p = Some True)"
    unfolding eq
    by (cases "default_to SizeMedium (text_size p)"; cases "default_to ColorPrimary (color p)";
        simp)
  have c: "(''text-center'' \<in> set ?cls) = (center p = Some True)"
    unfolding eq
    by (cases "default_to SizeMedium (text_size p)"; cases "default_to ColorPrimary (color p)";
        simp)
  from AppText_eq [of p] eq b c show ?thesis by blast
qed

text \<open>
  Counterexample to C5 as stated: with bold false and the className \<open>font-bold\<close>, the
  rendered Text has the class \<open>font-bold\<close> although bold is not true.
\<close>

theorem AppText_className_adds_bold:
  "bold \<lparr>children = (), text_size = None, bold = Some False, color = None, center = None,
      className = Some ''font-bold''\<rparr> = Some False \<and>
   AppText \<lparr>children = (), text_size = None, bold = Some False, color = None, center = None,
      className = Some ''font-bold''\<rparr> =
     Text [''text-base'', ''mb-3'', ''text-black'', ''font-bold''] ()"
  by (simp add: AppText_eq AppText_inputs_classes split_ws_def is_space_def)

text \<open>
  Claim C3, as amended. For all props and either press state, every class that Button
  puts on the Pressable and on its label, and every class that AppText selects from its
  size, bold, color and center props, is a class of one of these kinds: padding, rounded
  corners, background color, text color, opacity, border width, border color, flex
  layout, font weight, letter spacing, text size, margin, text alignment. The classes of
  AppText's className prop are appended to the selected ones as they are given and are
  not covered by this bound: the className \<open>underline\<close> gives the class \<open>underline\<close>,
  which is of none of these kinds.
\<close>

theorem produced_classes_kinds:
  "(\<exists>el cls st. Button p = Inr el \<and> pr_style el pressed = Inr (cls, st) \<and>
       list_all produced cls \<and>
       (loading p = Some True \<or>
        (\<exists>lbl. pr_children el = Text lbl (title p) \<and> list_all produced lbl))) \<and>
   (\<exists>cls. AppText a =
       Text (cls @ (case className a of None \<Rightarrow> [] | Some x \<Rightarrow> split_ws x)) (children a) \<and>
     cls = tw_style (AppText_inputs a) \<and> list_all produced cls) \<and>
   AppText \<lparr>children = (), text_size = None, bold = None, color = None, center = None,
      className = Some ''underline''\<rparr> =
     Text [''text-base'', ''mb-3'', ''text-black'', ''underline''] () \<and>
   kind_of ''underline'' = OtherClass \<and> \<not> produced ''underline''"
proof (intro conjI)
  obtain ss where ss: "sizeStyles p = Some ss" using sizeStyles_defined by blast
  obtain ts where ts: "themeStyles p = Some ts" using themeStyles_defined by blast
  let ?cls = "[''flex-row'', ''items-center'', ''justify-center'', ''border-[1px]''] @
          class_of ss ''paddingX'' @ class_of ss ''paddingY'' @ class_of ss ''rounded'' @
          class_of ts ''bg'' @ class_of ts ''border'' @
          (if pressed \<and> \<not> isDisabled p then class_of ts ''pressedBg'' else []) @
          (if isDisabled p then class_of ts ''disabledBg'' @ [''opacity-60''] else []) @
          (if full_of p then [''flex-1''] else [])"
  let ?lbl = "[''font-semibold'', ''tracking-wide''] @ class_of ss ''textSize'' @
          class_of ts ''text'' @ (if isDisabled p then class_of ts ''disabledText'' else [])"
  have sty: "pressable_style p pressed = Inr (?cls, style_prop p)"
    by (rule pressable_style_eq [OF ss ts])
  have cls: "list_all produced ?cls"
    using theme_classes_produced [OF ts] size_classes_produced [OF ss] fixed_classes_produced
    by simp
  have lbl: "list_all produced ?lbl"
    using theme_classes_produced [OF ts] size_classes_produced [OF ss] fixed_classes_produced
    by simp
  from Button_eq [OF ss ts] obtain el
    where el: "Button p = Inr el" "pr_style el = pressable_style p"
      and child: "loading p = Some True \<or> pr_children el = Text ?lbl (title p)"
    by (simp add: loading_of_iff)
  from el sty cls lbl child
  show "\<exists>el cls st. Button p = Inr el \<and> pr_style el pressed = Inr (cls, st) \<and>
       list_all produced cls \<and>
       (loading p = Some True \<or>
        (\<exists>lbl. pr_children el = Text lbl (title p) \<and> list_all produced lbl))"
    by metis
next
  from AppText_eq [of a] AppText_classes_produced [of a]
  show "\<exists>cls. AppText a =
       Text (cls @ (case className a of None \<Rightarrow> [] | Some x \<Rightarrow> split_ws x)) (children a) \<and>
     cls = tw_style (AppText_inputs a) \<and> list_all produced cls"
    by blast
next
  show "AppText \<lparr>children = (), text_size = None, bold = None, color = None, center = None,
      className = Some ''underline''\<rparr> =
     Text [''text-base'', ''mb-3'', ''text-black'', ''underline''] ()"
    by (simp add: AppText_eq AppText_inputs_classes split_ws_def is_space_def)
next
  show "kind_of ''underline'' = OtherClass" by code_simp
next
  show "\<not> produced ''underline''" by code_simp
qed

text \<open>
  Counterexample to C3 as stated. With its optional props omitted, the unpressed Button
  has the flex-layout class \<open>flex-row\<close>, the border-width class \<open>border-[1px]\<close> and the
  border-color class \<open>border-[#F02C56]\<close> on the Pressable, and the font-weight class
  \<open>font-semibold\<close>, the letter-spacing class \<open>tracking-wide\<close> and the text-size class
  \<open>text-base\<close> on the label; AppText with bold and center true has the margin class
  \<open>mb-3\<close> and the text-alignment class \<open>text-center\<close>. None of these eight kinds is
  among padding, rounded corners, background color, text color and opacity.
\<close>

theorem classes_outside_spec_kinds:
  "Button \<lparr>title = ''Save'', onPress = None :: unit option, theme = None,
      size_prop = None, disabled = None, loading = None, full = None, style_prop = None,
      rest = []\<rparr> =
     Inr \<lparr>pr_onPress = None, pr_disabled = False,
          pr_style = pressable_style \<lparr>title = ''Save'', onPress = None :: unit option,
            theme = None, size_prop = None, disabled = None, loading = None, full = None,
            style_prop = None, rest = []\<rparr>,
          pr_rest = [],
          pr_children =
            Text [''font-semibold'', ''tracking-wide'', ''text-base'', ''text-[#F02C56]'']
              ''Save''\<rparr> \<and>
   pressable_style \<lparr>title = ''Save'', onPress = None :: unit option, theme = None,
      size_prop = None, disabled = None, loading = None, full = None, style_prop = None,
      rest = []\<rparr> False =
     Inr ([''flex-row'', ''items-center'', ''justify-center'', ''border-[1px]'', ''px-4'',
           ''py-3'', ''rounded-lg'', ''bg-transparent'', ''border-[#F02C56]''], None) \<and>
   AppText \<lparr>children = (), text_size = None, bold = Some True, color = None,
      center = Some True, className = None\<rparr> =
     Text [''text-base'', ''mb-3'', ''font-bold'', ''text-black'', ''text-center''] () \<and>
   kind_of ''flex-row'' = FlexLayoutClass \<and> FlexLayoutClass \<notin> set spec_kinds \<and>
   kind_of ''border-[1px]'' = BorderWidthClass \<and> BorderWidthClass \<notin> set spec_kinds \<and>
   kind_of ''border-[#F02C56]'' = BorderColorClass \<and> BorderColorClass \<notin> set spec_kinds \<and>
   kind_of ''font-semibold'' = FontWeightClass \<and> FontWeightClass \<notin> set spec_kinds \<and>
   kind_of ''tracking-wide'' = LetterSpacingClass \<and> LetterSpacingClass \<notin> set spec_kinds \<and>
   kind_of ''text-base'' = TextSizeClass \<and> TextSizeClass \<notin> set spec_kinds \<and>
   kind_of ''mb-3'' = MarginClass \<and> MarginClass \<notin> set spec_kinds \<and>
   kind_of ''text-center'' = TextAlignClass \<and> TextAlignClass \<notin> set spec_kinds"
proof -
  let ?P = "\<lparr>title = ''Save'', onPress = None :: unit option, theme = None,
      size_prop = None, disabled = None, loading = None, full = None, style_prop = None,
      rest = []\<rparr>"
  have ss: "sizeStyles ?P = Some
     [(''paddingX'', ''px-4''), (''paddingY'', ''py-3''), (''textSize'', ''text-base''),
      (''rounded'', ''rounded-lg'')]"
    by (simp add: sizeStyles_def size_of_def size_lookup)
  have ts: "themeStyles ?P = Some
     [(''bg'', ''bg-transparent''), (''border'', ''border-[#F02C56]''),
      (''text'', ''text-[#F02C56]''), (''pressedBg'', ''bg-[#fef0f3]''),
      (''disabledBg'', ''bg-transparent''), (''disabledText'', ''text-[#f59db3]'')]"
    by (simp add: themeStyles_def theme_of_def theme_lookup)
  show ?thesis
    by (simp add: Button_eq [OF ss ts] pressable_style_eq [OF ss ts] isDisabled_def
        disabled_of_def loading_of_def full_of_def class_of_def AppText_eq
        AppText_inputs_classes kinds_outside_spec spec_kinds_def)
qed

text \<open>
  Claim C6, as amended. The class composition of Button's Pressable is computed by the
  style callback from the props and from the press state that the toolkit passes to it.
  For all props, two press states give the same style if and only if they are equal or
  disabled or loading is true: the composition of an enabled button depends on the press
  state, the composition of a disabled or loading button on the props alone.
\<close>

theorem Button_classes_depend_on_press_state:
  "\<exists>el. Button p = Inr el \<and>
     (\<forall>s1 s2. (pr_style el s1 = pr_style el s2) =
        (s1 = s2 \<or> disabled p = Some True \<or> loading p = Some True))"
proof -
  obtain ss where ss: "sizeStyles p = Some ss" using sizeStyles_defined by blast
  obtain ts where ts: "themeStyles p = Some ts" using themeStyles_defined by blast
  obtain c where c: "map_of ts ''pressedBg'' = Some c"
    using theme_fields_defined(4) [OF ts [unfolded themeStyles_def]] by blast
  have dis: "isDisabled p = (disabled p = Some True \<or> loading p = Some True)"
    by (simp add: isDisabled_def disabled_of_iff loading_of_iff)
  have diff: "(pressable_style p True = pressable_style p False) = isDisabled p"
    by (simp add: pressable_style_eq [OF ss ts] class_of_def c)
  have "(pressable_style p s1 = pressable_style p s2) =
      (s1 = s2 \<or> disabled p = Some True \<or> loading p = Some True)" for s1 s2
  proof (cases s1; cases s2)
    assume "s1" "\<not> s2"
    then show ?thesis using diff dis by simp
  next
    assume "\<not> s1" "s2"
    then have "(pressable_style p s1 = pressable_style p s2) =
        (pressable_style p True = pressable_style p False)"
      by auto
    with \<open>\<not> s1\<close> \<open>s2\<close> show ?thesis using diff dis by simp
  qed simp_all
  moreover from Button_eq [OF ss ts] obtain el
    where "Button p = Inr el" "pr_style el = pressable_style p"
    by simp
  ultimately show ?thesis by metis
qed

text \<open>
  Counterexample to C6 as stated: two renders of the Button with the same props, all
  optional ones omitted, have different class compositions when the toolkit passes
  different press states: the pressed one holds \<open>bg-[#fef0f3]\<close> in addition.
\<close>

theorem Button_classes_differ_by_press_state:
  "Button \<lparr>title = ''Save'', onPress = None :: unit option, theme = None,
      size_prop = None, disabled = None, loading = None, full = None, style_prop = None,
      rest = []\<rparr> =
     Inr \<lparr>pr_onPress = None, pr_disabled = False,
          pr_style = pressable_style \<lparr>title = ''Save'', onPress = None :: unit option,
            theme = None, size_prop = None, disabled = None, loading = None, full = None,
            style_prop = None, rest = []\<rparr>,
          pr_rest = [],
          pr_children =
            Text [''font-semibold'', ''tracking-wide'', ''text-base'', ''text-[#F02C56]'']
              ''Save''\<rparr> \<and>
   pressable_style \<lparr>title = ''Save'', onPress = None :: unit option, theme = None,
      size_prop = None, disabled = None, loading = None, full = None, style_prop = None,
      rest = []\<rparr> False =
     Inr ([''flex-row'', ''items-center'', ''justify-center'', ''border-[1px]'', ''px-4'',
           ''py-3'', ''rounded-lg'', ''bg-transparent'', ''border-[#F02C56]''], None) \<and>
   pressable_style \<lparr>title = ''Save'', onPress = None :: unit option, theme = None,
      size_prop = None, disabled = None, loading = None, full = None, style_prop = None,
      rest = []\<rparr> True =
     Inr ([''flex-row'', ''items-center'', ''justify-center'', ''border-[1px]'', ''px-4'',
           ''py-3'', ''rounded-lg'', ''bg-transparent'', ''border-[#F02C56]'',
           ''bg-[#fef0f3]''], None)"
proof -
  let ?P = "\<lparr>title = ''Save'', onPress = None :: unit option, theme = None,
      size_prop = None, disabled = None, loading = None, full = None, style_prop = None,
      rest = []\<rparr>"
  have ss: "sizeStyles ?P = Some
     [(''paddingX'', ''px-4''), (''paddingY'', ''py-3''), (''textSize'', ''text-base''),
      (''rounded'', ''rounded-lg'')]"
    by (simp add: sizeStyles_def size_of_def size_lookup)
  have ts: "themeStyles ?P = Some
     [(''bg'', ''bg-transparent''), (''border'', ''border-[#F02C56]''),
      (''text'', ''text-[#F02C56]''), (''pressedBg'', ''bg-[#fef0f3]''),
      (''disabledBg'', ''bg-transparent''), (''disabledText'', ''text-[#f59db3]'')]"
    by (simp add: themeStyles_def theme_of_def theme_lookup)
  show ?thesis
    by (simp add: Button_eq [OF ss ts] pressable_style_eq [OF ss ts] isDisabled_def
        disabled_of_def loading_of_def full_of_def class_of_def)
qed

end
